theory Spec2Isabelle
  imports Complex_Main "HOL-Library.Sublist" "HOL-Library.Log_Nat"
begin

text \<open>
  The transaction-monitoring engine of \<^verbatim>\<open>bot.js\<close>: the filter
  \<^verbatim>\<open>shouldNotify\<close>, the analyzer \<^verbatim>\<open>analyzeSolTransaction\<close>, the differ
  \<^verbatim>\<open>checkWalletTransactions\<close> with \<^verbatim>\<open>processTransaction\<close>, and the timer
  that drives \<^verbatim>\<open>checkTransactions\<close>. Asynchronous functions are modelled by what
  they return and by the list of their effects in program order; the answers of the
  chain client and of the delivery channel are arguments.
\<close>

section \<open>JavaScript values used by the monitoring engine\<close>

text \<open>
  A JavaScript Number: a finite value (a double is a rational), one of the two
  infinities, or NaN; every comparison with NaN is false. Sums and differences are
  computed exactly, as they are on the integer lamport balances of a transaction
  (integers below 2^53); the division of the filter rounds to the nearest double, as
  defined below.
\<close>

datatype jsnum = Fin rat | PInf | NInf | NaN

text \<open>The relational operator \<^verbatim>\<open>a < b\<close> on two Numbers.\<close>

fun num_lt :: "jsnum \<Rightarrow> jsnum \<Rightarrow> bool" where
  "num_lt NaN _ = False"
| "num_lt _ NaN = False"
| "num_lt (Fin a) (Fin b) = (a < b)"
| "num_lt NInf NInf = False"
| "num_lt NInf _ = True"
| "num_lt _ NInf = False"
| "num_lt PInf _ = False"
| "num_lt _ PInf = True"

text \<open>\<^verbatim>\<open>a > b\<close> is \<^verbatim>\<open>b < a\<close>.\<close>

definition num_gt :: "jsnum \<Rightarrow> jsnum \<Rightarrow> bool" where
  "num_gt a b = num_lt b a"

fun num_neg :: "jsnum \<Rightarrow> jsnum" where
  "num_neg (Fin a) = Fin (- a)"
| "num_neg PInf = NInf"
| "num_neg NInf = PInf"
| "num_neg NaN = NaN"

fun num_add :: "jsnum \<Rightarrow> jsnum \<Rightarrow> jsnum" where
  "num_add NaN _ = NaN"
| "num_add _ NaN = NaN"
| "num_add (Fin a) (Fin b) = Fin (a + b)"
| "num_add PInf NInf = NaN"
| "num_add NInf PInf = NaN"
| "num_add PInf _ = PInf"
| "num_add _ PInf = PInf"
| "num_add NInf _ = NInf"
| "num_add _ NInf = NInf"

definition num_sub :: "jsnum \<Rightarrow> jsnum \<Rightarrow> jsnum" where
  "num_sub a b = num_add a (num_neg b)"

text \<open>\<^verbatim>\<open>Math.abs\<close>.\<close>

fun num_abs :: "jsnum \<Rightarrow> jsnum" where
  "num_abs (Fin a) = Fin \<bar>a\<bar>"
| "num_abs PInf = PInf"
| "num_abs NInf = PInf"
| "num_abs NaN = NaN"

text \<open>
  Rounding a rational to the nearest IEEE 754 double (53 significant bits, ties to the
  even significand, gradual underflow below 2^-1022, overflow to an infinity from 2^1024
  on). \<open>binary_exponent x\<close> is the \<open>e\<close> with \<open>2^e \<le> |x| < 2^(e+1)\<close>, for \<open>x \<noteq> 0\<close>.
\<close>

definition binary_exponent :: "rat \<Rightarrow> int" where
  "binary_exponent x =
     (let d = bitlen \<bar>fst (quotient_of x)\<bar> - bitlen (snd (quotient_of x))
      in if 2 powi d \<le> \<bar>x\<bar> then d else d - 1)"

definition round_half_even :: "rat \<Rightarrow> int" where
  "round_half_even y =
     (let f = \<lfloor>y\<rfloor>; r = y - of_int f
      in if r < 1 / 2 then f
         else if 1 / 2 < r then f + 1
         else if even f then f else f + 1)"

definition round_double :: "rat \<Rightarrow> jsnum" where
  "round_double x =
     (if x = 0 then Fin 0
      else (let e = max (binary_exponent x) (- 1022);
                q = 2 powi (e - 52);
                r = of_int (round_half_even (x / q)) * q
            in if 2 ^ 1024 \<le> r then PInf
               else if r \<le> - (2 ^ 1024) then NInf
               else Fin r))"

text \<open>\<^verbatim>\<open>x / 1e9\<close>: lamports to SOL, the exact quotient rounded to a double.\<close>

fun div_1e9 :: "jsnum \<Rightarrow> jsnum" where
  "div_1e9 (Fin a) = round_double (a / 1000000000)"
| "div_1e9 PInf = PInf"
| "div_1e9 NInf = NInf"
| "div_1e9 NaN = NaN"

declare div_1e9.simps(1) [simp del]

text \<open>
  The values a configuration variable or a stored filter field can hold:
  \<^verbatim>\<open>process.env.X\<close> is a string or \<^verbatim>\<open>undefined\<close>; a field of a wallet record
  read from the JSON file is a number, a string, \<^verbatim>\<open>null\<close> or missing.
\<close>

datatype jsval = JUndefined | JNull | JNumber jsnum | JString string

text \<open>
  ToNumber, applied by \<^verbatim>\<open><\<close> and \<^verbatim>\<open>>\<close> when the other operand is a Number. The
  conversion of a string (the language's StringToNumber) is a parameter of the model.
\<close>

fun toNumber :: "(string \<Rightarrow> jsnum) \<Rightarrow> jsval \<Rightarrow> jsnum" where
  "toNumber StringToNumber JUndefined = NaN"
| "toNumber StringToNumber JNull = Fin 0"
| "toNumber StringToNumber (JNumber n) = n"
| "toNumber StringToNumber (JString s) = StringToNumber s"

text \<open>ToBoolean, applied by \<^verbatim>\<open>&&\<close>, \<^verbatim>\<open>!\<close> and \<^verbatim>\<open>if\<close>.\<close>

fun truthy :: "jsval \<Rightarrow> bool" where
  "truthy JUndefined = False"
| "truthy JNull = False"
| "truthy (JNumber n) = (n \<noteq> Fin 0 \<and> n \<noteq> NaN)"
| "truthy (JString s) = (s \<noteq> [])"

section \<open>Configuration and data model\<close>

text \<open>The module-level constants read from the environment (bot.js, lines 14 to 17).\<close>

record config =
  POLL_INTERVAL :: jsval
  MAX_SIGNATURES_PER_CHECK :: jsval
  MINIMUM_SOL_THRESHOLD :: jsval
  DUST_THRESHOLD :: jsval

text \<open>A wallet record of \<^verbatim>\<open>wallets.json\<close> (created at lines 323 to 331).\<close>

record wallet =
  name :: string
  address :: string
  minAmount :: jsval
  maxAmount :: jsval
  direction :: string
  active :: bool

text \<open>The object returned by \<^verbatim>\<open>analyzeSolTransaction\<close> (lines 672 to 678).\<close>

record transfer =
  transfer_signature :: "string option"
  amount :: jsnum
  transfer_direction :: string
  timestamp :: int
  receiver_sender :: "string option"

section \<open>The filter: \<^verbatim>\<open>shouldNotify\<close>\<close>

definition shouldNotify :: "(string \<Rightarrow> jsnum) \<Rightarrow> config \<Rightarrow> transfer \<Rightarrow> wallet \<Rightarrow> bool" where
  "shouldNotify StringToNumber cfg transfer wallet =
     (let amount_SOL = div_1e9 (amount transfer) in
      if num_lt amount_SOL (toNumber StringToNumber (MINIMUM_SOL_THRESHOLD cfg)) then False
      else if truthy (minAmount wallet)
                \<and> num_lt amount_SOL (toNumber StringToNumber (minAmount wallet)) then False
      else if truthy (maxAmount wallet)
                \<and> num_gt amount_SOL (toNumber StringToNumber (maxAmount wallet)) then False
      else if direction wallet \<noteq> ''both''
                \<and> direction wallet \<noteq> transfer_direction transfer then False
      else True)"

section \<open>The analyzer: \<^verbatim>\<open>analyzeSolTransaction\<close>\<close>

text \<open>A value thrown by the runtime or by a client library; only its message is used.\<close>

datatype js_error = Error (message: string)

text \<open>
  The fields of a parsed transaction that the engine reads: \<^verbatim>\<open>meta.preBalances\<close>,
  \<^verbatim>\<open>meta.postBalances\<close> (lamports), the public keys of
  \<^verbatim>\<open>transaction.message.accountKeys\<close> as strings, \<^verbatim>\<open>transaction.signatures\<close>
  and \<^verbatim>\<open>blockTime\<close> (seconds, or null).
\<close>

record transaction_meta =
  preBalances :: "int list"
  postBalances :: "int list"

record transaction =
  meta :: "transaction_meta option"
  accountKeys :: "string list"
  signatures :: "string list"
  blockTime :: "int option"

text \<open>
  Reading a balance array inside a subtraction: an index past the end reads
  \<^verbatim>\<open>undefined\<close>, which the subtraction converts to NaN.
\<close>

definition balance_at :: "int list \<Rightarrow> nat \<Rightarrow> jsnum" where
  "balance_at balances i = (if i < length balances then Fin (of_int (balances ! i)) else NaN)"

text \<open>\<^verbatim>\<open>postBalances[i] - preBalances[i]\<close>.\<close>

definition balance_change :: "transaction_meta \<Rightarrow> nat \<Rightarrow> jsnum" where
  "balance_change m i = num_sub (balance_at (postBalances m) i) (balance_at (preBalances m) i)"

text \<open>The first loop (lines 645 to 651); \<^verbatim>\<open>walletIndex = -1\<close> is \<open>None\<close>.\<close>

function findWalletIndex :: "string list \<Rightarrow> string \<Rightarrow> nat \<Rightarrow> nat option" where
  "findWalletIndex keys walletAddress i =
     (if i < length keys
      then (if keys ! i = walletAddress then Some i
            else findWalletIndex keys walletAddress (Suc i))
      else None)"
  by pat_completeness auto
termination
  by (relation "measure (\<lambda>(keys, walletAddress, i). length keys - i)") auto

declare findWalletIndex.simps [simp del]

text \<open>The second loop (lines 658 to 670); \<^verbatim>\<open>receiver_sender\<close> left undefined is \<open>None\<close>.\<close>

function findCounterparty ::
  "string list \<Rightarrow> transaction_meta \<Rightarrow> nat \<Rightarrow> jsnum \<Rightarrow> nat \<Rightarrow> string option" where
  "findCounterparty keys m walletIndex balanceChange i =
     (if i < length keys
      then (if i \<noteq> walletIndex
            then (let senderBalanceChange = balance_change m i in
                  if num_gt balanceChange (Fin 0) \<and> num_lt senderBalanceChange (Fin 0)
                  then Some (keys ! i)
                  else if num_lt balanceChange (Fin 0) \<and> num_gt senderBalanceChange (Fin 0)
                          \<and> num_lt (num_add senderBalanceChange balanceChange) (Fin 1000000)
                  then Some (keys ! i)
                  else findCounterparty keys m walletIndex balanceChange (Suc i))
            else findCounterparty keys m walletIndex balanceChange (Suc i))
      else None)"
  by pat_completeness auto
termination
  by (relation "measure (\<lambda>(keys, m, walletIndex, balanceChange, i). length keys - i)") auto

declare findCounterparty.simps [simp del]

text \<open>
  The analyzer. It can read every module-level constant, so the configuration is an
  argument; a transaction without \<^verbatim>\<open>meta\<close> makes the first line throw. The result
  \<open>Inr None\<close> is the \<^verbatim>\<open>null\<close> the function returns for an irrelevant transaction.
\<close>

definition analyzeSolTransaction ::
  "config \<Rightarrow> transaction \<Rightarrow> string \<Rightarrow> js_error + transfer option" where
  "analyzeSolTransaction cfg tx walletAddress =
     (case meta tx of
        None \<Rightarrow> Inl (Error ''Cannot read properties of null (reading 'preBalances')'')
      | Some m \<Rightarrow>
          (case findWalletIndex (accountKeys tx) walletAddress 0 of
             None \<Rightarrow> Inr None
           | Some walletIndex \<Rightarrow>
               (let balanceChange = balance_change m walletIndex in
                if num_lt (num_abs balanceChange) (Fin 1000) then Inr None
                else Inr (Some \<lparr>
                  transfer_signature = (case signatures tx of [] \<Rightarrow> None | s # _ \<Rightarrow> Some s),
                  amount = num_abs balanceChange,
                  transfer_direction =
                    (if num_gt balanceChange (Fin 0) then ''incoming'' else ''outgoing''),
                  timestamp = (case blockTime tx of None \<Rightarrow> 0 | Some t \<Rightarrow> t * 1000),
                  receiver_sender =
                    findCounterparty (accountKeys tx) m walletIndex balanceChange 0 \<rparr>))))"

section \<open>The differ: \<^verbatim>\<open>checkWalletTransactions\<close>\<close>

text \<open>An element of the array that \<^verbatim>\<open>getSignaturesForAddress\<close> resolves to.\<close>

record sigInfo =
  signature :: string
  slot :: nat

text \<open>
  The collaborators of one call: the \<^verbatim>\<open>PublicKey\<close> constructor (which throws on a
  malformed address), the two RPC methods of \<^verbatim>\<open>connection\<close> and
  \<^verbatim>\<open>bot.sendMessage\<close>. A rejected promise or a thrown value is \<open>Inl\<close>
  (\<open>Some\<close> where nothing is returned). The answer to
  \<^verbatim>\<open>getSignaturesForAddress\<close> depends on the limit, so the two requests of one
  call may see different states of the ledger.
\<close>

record client =
  newPublicKey :: "string \<Rightarrow> js_error option"
  getSignaturesForAddress :: "string \<Rightarrow> nat \<Rightarrow> js_error + sigInfo list"
  getParsedTransaction :: "string \<Rightarrow> js_error + transaction option"
  sendMessage :: "string \<Rightarrow> string \<Rightarrow> transfer \<Rightarrow> js_error option"

text \<open>
  What a call does besides returning: the requests it sends, the messages it hands to the
  delivery channel, the writes to \<^verbatim>\<open>lastCheckedSignatures\<close> and the lines written
  with \<^verbatim>\<open>console.error\<close> (and the rate-limit notice), in program order. Progress
  lines and the pauses of 100 ms are not recorded.
\<close>

datatype event =
    GetSignaturesForAddress string nat
  | GetParsedTransaction string
  | SendMessage string string transfer
  | SetLastChecked string string
  | LogWalletError string string
  | LogRateLimited string
  | LogTransactionError string
  | LogSendFailure string

text \<open>\<^verbatim>\<open>String.prototype.includes\<close>.\<close>

fun str_includes :: "string \<Rightarrow> string \<Rightarrow> bool" where
  "str_includes [] t = (t = [])"
| "str_includes (c # cs) t = (prefix t (c # cs) \<or> str_includes cs t)"

text \<open>Lines 712 to 739: the send is attempted once; a failure is logged and swallowed.\<close>

definition sendTransactionNotification ::
  "client \<Rightarrow> string \<Rightarrow> wallet \<Rightarrow> transfer \<Rightarrow> event list" where
  "sendTransactionNotification cl userId wallet transfer =
     SendMessage userId (name wallet) transfer #
     (case sendMessage cl userId (name wallet) transfer of
        Some e \<Rightarrow> [LogSendFailure userId]
      | None \<Rightarrow> [])"

text \<open>Lines 621 to 636: everything thrown inside is caught and logged.\<close>

definition processTransaction ::
  "(string \<Rightarrow> jsnum) \<Rightarrow> config \<Rightarrow> client \<Rightarrow> string \<Rightarrow> wallet \<Rightarrow> sigInfo \<Rightarrow> event list" where
  "processTransaction StringToNumber cfg cl userId wallet sig =
     GetParsedTransaction (signature sig) #
     (case getParsedTransaction cl (signature sig) of
        Inl e \<Rightarrow> [LogTransactionError (message e)]
      | Inr None \<Rightarrow> []
      | Inr (Some tx) \<Rightarrow>
          (if meta tx = None then []
           else (case analyzeSolTransaction cfg tx (address wallet) of
                   Inl e \<Rightarrow> [LogTransactionError (message e)]
                 | Inr None \<Rightarrow> []
                 | Inr (Some solTransfer) \<Rightarrow>
                     (if shouldNotify StringToNumber cfg solTransfer wallet
                      then sendTransactionNotification cl userId wallet solTransfer
                      else []))))"

text \<open>The loop of lines 595 to 598: collect until the stored signature is met.\<close>

fun collectNewSignatures :: "string \<Rightarrow> sigInfo list \<Rightarrow> sigInfo list" where
  "collectNewSignatures lastSignature [] = []"
| "collectNewSignatures lastSignature (sig # recentSignatures) =
     (if signature sig = lastSignature then []
      else sig # collectNewSignatures lastSignature recentSignatures)"

text \<open>The \<^verbatim>\<open>catch\<close> block of lines 611 to 618.\<close>

definition catchWalletError :: "wallet \<Rightarrow> js_error \<Rightarrow> event list" where
  "catchWalletError wallet e =
     LogWalletError (name wallet) (message e) #
     (if str_includes (message e) ''429'' \<or> str_includes (message e) ''rate''
      then [LogRateLimited (name wallet)] else [])"

text \<open>
  Lines 564 to 619. The map \<^verbatim>\<open>lastCheckedSignatures\<close> is passed in and returned.
  \<^verbatim>\<open>!lastSignature\<close> holds for a missing entry and for the empty string.
\<close>

definition checkWalletTransactions ::
  "(string \<Rightarrow> jsnum) \<Rightarrow> config \<Rightarrow> client \<Rightarrow> (string \<rightharpoonup> string) \<Rightarrow> string \<Rightarrow> string \<Rightarrow> wallet
     \<Rightarrow> (string \<rightharpoonup> string) \<times> event list" where
  "checkWalletTransactions StringToNumber cfg cl lastCheckedSignatures userId walletId wallet =
     (case newPublicKey cl (address wallet) of
        Some e \<Rightarrow> (lastCheckedSignatures, catchWalletError wallet e)
      | None \<Rightarrow>
     (case getSignaturesForAddress cl (address wallet) 1 of
        Inl e \<Rightarrow> (lastCheckedSignatures,
                  GetSignaturesForAddress (address wallet) 1 # catchWalletError wallet e)
      | Inr [] \<Rightarrow> (lastCheckedSignatures, [GetSignaturesForAddress (address wallet) 1])
      | Inr (sig0 # _) \<Rightarrow>
     (let latestSignature = signature sig0;
          firstCheck = (lastCheckedSignatures(walletId \<mapsto> latestSignature),
                        [GetSignaturesForAddress (address wallet) 1,
                         SetLastChecked walletId latestSignature])
      in case lastCheckedSignatures walletId of
        None \<Rightarrow> firstCheck
      | Some lastSignature \<Rightarrow>
          if lastSignature = [] then firstCheck
          else if latestSignature = lastSignature
          then (lastCheckedSignatures, [GetSignaturesForAddress (address wallet) 1])
          else (case getSignaturesForAddress cl (address wallet) 5 of
                  Inl e \<Rightarrow>
                    (lastCheckedSignatures,
                     [GetSignaturesForAddress (address wallet) 1,
                      GetSignaturesForAddress (address wallet) 5] @ catchWalletError wallet e)
                | Inr recentSignatures \<Rightarrow>
                    (let newSignatures = collectNewSignatures lastSignature recentSignatures
                     in (lastCheckedSignatures(walletId \<mapsto> latestSignature),
                         [GetSignaturesForAddress (address wallet) 1,
                          GetSignaturesForAddress (address wallet) 5]
                         @ concat (map (processTransaction StringToNumber cfg cl userId wallet)
                                     (rev newSignatures))
                         @ [SetLastChecked walletId latestSignature]))))))"

section \<open>The scheduler: \<^verbatim>\<open>start\<close> and \<^verbatim>\<open>checkTransactions\<close>\<close>

text \<open>
  \<^verbatim>\<open>setInterval(checkTransactions, 15000)\<close> (line 747) calls
  \<^verbatim>\<open>checkTransactions\<close> every 15000 ms; the call returns a promise at its first
  \<^verbatim>\<open>await\<close> and the timer does not look at it. Time is in milliseconds since the
  timer was set; pass \<open>k\<close> (counted from 0) starts at \<open>tickTime k\<close>.
\<close>

definition tickTime :: "nat \<Rightarrow> nat" where
  "tickTime k = 15000 * (k + 1)"

text \<open>
  The passes that have started and not yet finished at time \<open>t\<close>, when pass \<open>k\<close> takes
  \<open>duration k\<close> ms: nothing but its own completion ends a pass, and nothing delays or
  skips a start.
\<close>

definition inFlight :: "(nat \<Rightarrow> nat) \<Rightarrow> nat \<Rightarrow> nat list" where
  "inFlight duration t =
     filter (\<lambda>k. tickTime k \<le> t \<and> t < tickTime k + duration k) [0..<t div 15000]"

definition BATCH_SIZE :: nat where
  "BATCH_SIZE = 3"

text \<open>
  The time one pass spends in the pauses between batches (lines 541 to 555), for \<open>n\<close>
  active wallets and from loop index \<open>i\<close> on: a lower bound of the duration of the pass.
\<close>

function interBatchDelay :: "nat \<Rightarrow> nat \<Rightarrow> nat" where
  "interBatchDelay n i =
     (if i < n
      then (if i + BATCH_SIZE < n then 1000 else 0) + interBatchDelay n (i + BATCH_SIZE)
      else 0)"
  by pat_completeness auto
termination
  by (relation "measure (\<lambda>(n, i). n - i)") (auto simp: BATCH_SIZE_def)

declare interBatchDelay.simps [simp del]

section \<open>Successive polls of one watch against an append-only ledger\<close>





section \<open>Reading the event list\<close>

definition fetchedTransactions :: "event list \<Rightarrow> string list" where
  "fetchedTransactions evs = [s. GetParsedTransaction s \<leftarrow> evs]"

definition notifications :: "event list \<Rightarrow> (string \<times> string \<times> transfer) list" where
  "notifications evs = [(u, n, t). SendMessage u n t \<leftarrow> evs]"

definition cursorWrites :: "event list \<Rightarrow> (string \<times> string) list" where
  "cursorWrites evs = [(w, s). SetLastChecked w s \<leftarrow> evs]"

definition walletErrors :: "event list \<Rightarrow> string list" where
  "walletErrors evs = [m. LogWalletError n m \<leftarrow> evs]"

definition transactionErrors :: "event list \<Rightarrow> string list" where
  "transactionErrors evs = [m. LogTransactionError m \<leftarrow> evs]"

section \<open>The counterparty rule in the words of the specification\<close>


section \<open>Concrete inputs\<close>

text \<open>
  A configuration with a floor of 0.01 SOL, a conversion that knows this one string, and
  a watch that notifies between 0.5 and 2 SOL in both directions.
\<close>

definition demoStringToNumber :: "string \<Rightarrow> jsnum" where
  "demoStringToNumber s = (if s = ''0.01'' then round_double (1 / 100) else NaN)"

definition demoConfig :: config where
  "demoConfig = \<lparr> POLL_INTERVAL = JUndefined, MAX_SIGNATURES_PER_CHECK = JUndefined,
                  MINIMUM_SOL_THRESHOLD = JString ''0.01'', DUST_THRESHOLD = JString ''100'' \<rparr>"

definition demoWallet :: wallet where
  "demoWallet = \<lparr> name = ''main'', address = ''WATCHED'',
                  minAmount = JNumber (Fin (1 / 2)), maxAmount = JNumber (Fin 2),
                  direction = ''both'', active = True \<rparr>"

text \<open>
  The same watch with a maximum of 8388608.3 SOL; the number stored is the double nearest
  to this decimal.
\<close>

definition largeWallet :: wallet where
  "largeWallet = demoWallet\<lparr>maxAmount := JNumber (Fin (2251799894215885 / 268435456))\<rparr>"

definition demoTransfer :: "rat \<Rightarrow> transfer" where
  "demoTransfer lamports =
     \<lparr> transfer_signature = Some ''S1'', amount = Fin lamports,
       transfer_direction = ''incoming'', timestamp = 0, receiver_sender = None \<rparr>"

text \<open>
  Three transactions of the watched address: it receives 1 SOL (the sender comes first
  in the account list), it sends 1 SOL and pays the fee of 5000 lamports (an unrelated
  account comes first), and its balance moves by 500 lamports only.
\<close>

definition incomingTx :: transaction where
  "incomingTx =
     \<lparr> meta = Some \<lparr> preBalances = [7000000000, 5000000000],
                     postBalances = [5999995000, 6000000000] \<rparr>,
       accountKeys = [''OTHER'', ''WATCHED''], signatures = [''S1''],
       blockTime = Some 1700000000 \<rparr>"

definition outgoingTx :: transaction where
  "outgoingTx =
     \<lparr> meta = Some \<lparr> preBalances = [1, 5000000000, 7000000000],
                     postBalances = [1, 3999995000, 8000000000] \<rparr>,
       accountKeys = [''PROGRAM'', ''WATCHED'', ''OTHER''], signatures = [''S3''],
       blockTime = Some 1700000060 \<rparr>"

definition dustTx :: transaction where
  "dustTx =
     \<lparr> meta = Some \<lparr> preBalances = [5000000000, 7000000000],
                     postBalances = [5000000500, 6999999500] \<rparr>,
       accountKeys = [''WATCHED'', ''OTHER''], signatures = [''S9''],
       blockTime = Some 1700000090 \<rparr>"

text \<open>
  A ledger of five signatures, oldest first, and a client that answers from its first
  \<open>n\<close> entries, newest first; the details of \<open>S2\<close> cannot be fetched.
\<close>

definition demoLedger :: "string list" where
  "demoLedger = [''Sx'', ''S0'', ''S1'', ''S2'', ''S3'']"

definition demoSig :: "string \<Rightarrow> sigInfo" where
  "demoSig s = \<lparr> signature = s, slot = 0 \<rparr>"

definition demoTransactions :: "string \<Rightarrow> js_error + transaction option" where
  "demoTransactions s =
     (if s = ''S1'' then Inr (Some incomingTx)
      else if s = ''S2'' then Inl (Error ''fetch failed'')
      else if s = ''S3'' then Inr (Some outgoingTx)
      else Inr None)"

definition ledgerClient :: "string list \<Rightarrow> nat \<Rightarrow> client" where
  "ledgerClient ledger n =
     \<lparr> newPublicKey = (\<lambda>a. None),
       getSignaturesForAddress = (\<lambda>a limit. Inr (map demoSig (take limit (rev (take n ledger))))),
       getParsedTransaction = demoTransactions,
       sendMessage = (\<lambda>u n t. None) \<rparr>"

text \<open>A client whose second request for signatures is rejected by the rate limiter.\<close>

definition rateLimitedClient :: client where
  "rateLimitedClient =
     \<lparr> newPublicKey = (\<lambda>a. None),
       getSignaturesForAddress =
         (\<lambda>a limit. if limit = 1 then Inr [demoSig ''S3'']
                     else Inl (Error ''429 Too Many Requests'')),
       getParsedTransaction = demoTransactions,
       sendMessage = (\<lambda>u n t. None) \<rparr>"

text \<open>
  Passes over 49 active wallets: the pauses between the 17 batches alone take 16000 ms.
\<close>

definition slowPass :: "nat \<Rightarrow> nat" where
  "slowPass k = interBatchDelay 49 0"

definition quickPass :: "nat \<Rightarrow> nat" where
  "quickPass k = interBatchDelay 6 0"

text \<open>The cursor map at process start, and with one cursor stored for the watch \<open>w1\<close>.\<close>

definition noCursors :: "string \<rightharpoonup> string" where
  "noCursors = Map.empty"

definition cursorAt :: "string \<Rightarrow> (string \<rightharpoonup> string)" where
  "cursorAt s = Map.empty(''w1'' \<mapsto> s)"

text \<open>The events that the transactions \<open>S1\<close> and \<open>S3\<close> produce for the watch.\<close>

definition incomingTransfer :: transfer where
  "incomingTransfer =
     \<lparr> transfer_signature = Some ''S1'', amount = Fin 1000000000,
       transfer_direction = ''incoming'', timestamp = 1700000000000,
       receiver_sender = Some ''OTHER'' \<rparr>"

definition outgoingTransfer :: transfer where
  "outgoingTransfer =
     \<lparr> transfer_signature = Some ''S3'', amount = Fin 1000005000,
       transfer_direction = ''outgoing'', timestamp = 1700000060000,
       receiver_sender = Some ''OTHER'' \<rparr>"

section \<open>Facts about the number model and the loops\<close>

lemma num_lt_irrefl: "\<not> num_lt a a"
  by (cases a) auto



text \<open>The rounding error of the division below 2^23 SOL is at most 2^-31.\<close>

lemma round_half_even_error: "\<bar>of_int (round_half_even y) - y\<bar> \<le> 1 / 2"
  unfolding round_half_even_def Let_def
  by (auto simp: abs_if) linarith+

lemma binary_exponent_lower:
  assumes "0 < x"
  shows "2 powi (binary_exponent x) \<le> x"
proof -
  obtain p q where pq: "quotient_of x = (p, q)" by (cases "quotient_of x")
  then have q: "0 < q" and x: "x = of_int p / of_int q"
    by (simp_all add: quotient_of_denom_pos quotient_of_div)
  have p: "0 < p" using assms q x by (simp add: zero_less_divide_iff)
  let ?d = "bitlen p - bitlen q"
  have bp: "2 ^ nat (bitlen p - 1) \<le> p" and bq: "q < 2 ^ nat (bitlen q)"
    using bitlen_bounds [OF p] bitlen_bounds [OF q] by simp_all
  have p1: "1 \<le> bitlen p" using p by (simp add: bitlen_alt_def)
  have q1: "0 \<le> bitlen q" by (rule bitlen_nonneg)
  have "(2::rat) powi (?d - 1) = 2 powi (bitlen p - 1) / 2 powi (bitlen q)"
    using power_int_diff [of "2::rat" "bitlen p - 1" "bitlen q"] by (simp add: algebra_simps)
  also have "\<dots> = 2 ^ nat (bitlen p - 1) / 2 ^ nat (bitlen q)"
    using p1 q1 by (simp add: power_int_nonneg_exp)
  also have "\<dots> \<le> of_int p / of_int q"
  proof -
    have a: "(of_int (2 ^ nat (bitlen p - 1)) :: rat) \<le> of_int p"
      using bp by (simp only: of_int_le_iff)
    have b: "(of_int q :: rat) \<le> of_int (2 ^ nat (bitlen q))"
      using bq by (simp only: of_int_le_iff)
    have a': "(2::rat) ^ nat (bitlen p - 1) \<le> of_int p" using a by simp
    have b': "(of_int q :: rat) \<le> 2 ^ nat (bitlen q)" using b by simp
    have q': "(0::rat) < of_int q" using q by simp
    have "(2::rat) ^ nat (bitlen p - 1) / 2 ^ nat (bitlen q) \<le> of_int p / 2 ^ nat (bitlen q)"
      using a' by (simp add: divide_right_mono)
    also have "\<dots> \<le> of_int p / of_int q"
      using b' q' p by (intro divide_left_mono) simp_all
    finally show ?thesis .
  qed
  finally have low: "(2::rat) powi (?d - 1) \<le> x" using x by simp
  have ax: "\<bar>x\<bar> = x" and ap: "\<bar>p\<bar> = p" using assms p by simp_all
  show ?thesis
    using low by (simp add: binary_exponent_def Let_def pq ax ap)
qed

lemma binary_exponent_less:
  assumes "0 < x" and "x < 2 powi k"
  shows "binary_exponent x < k"
proof (rule ccontr)
  assume "\<not> binary_exponent x < k"
  then have "(2::rat) powi k \<le> 2 powi (binary_exponent x)"
    by (intro power_int_increasing) simp_all
  then show False using binary_exponent_lower [OF assms(1)] assms(2) by simp
qed

lemma round_double_error:
  assumes "0 \<le> x" and "x < 2 ^ 23"
  shows "\<exists>r. round_double x = Fin r \<and> \<bar>r - x\<bar> \<le> 1 / 2 ^ 31"
proof (cases "x = 0")
  case True
  then show ?thesis by (simp add: round_double_def)
next
  case False
  then have pos: "0 < x" using assms(1) by simp
  define e where "e = max (binary_exponent x) (- 1022)"
  define q :: rat where "q = 2 powi (e - 52)"
  define r where "r = of_int (round_half_even (x / q)) * q"
  have "binary_exponent x < 23"
    using binary_exponent_less [OF pos, of 23] assms(2) by simp
  then have e: "e - 52 \<le> - 30" by (simp add: e_def)
  have q0: "0 < q" by (simp add: q_def)
  have "q \<le> 2 powi (- 30)"
    unfolding q_def using e by (intro power_int_increasing) simp_all
  then have q30: "q \<le> 1 / 2 ^ 30" by (simp add: power_int_minus_divide)
  have "\<bar>of_int (round_half_even (x / q)) - x / q\<bar> * q \<le> (1 / 2) * q"
    using round_half_even_error [of "x / q"] q0 by (intro mult_right_mono) simp_all
  moreover have "\<bar>of_int (round_half_even (x / q)) - x / q\<bar> * q = \<bar>r - x\<bar>"
  proof -
    have "\<bar>of_int (round_half_even (x / q)) - x / q\<bar> * q
            = \<bar>(of_int (round_half_even (x / q)) - x / q) * q\<bar>"
      using q0 by (simp add: abs_mult)
    also have "(of_int (round_half_even (x / q)) - x / q) * q = r - x"
      using q0 by (simp add: r_def algebra_simps)
    finally show ?thesis .
  qed
  ultimately have err: "\<bar>r - x\<bar> \<le> 1 / 2 ^ 31"
    using q30 by simp
  have big: "(2::rat) ^ 24 \<le> 2 ^ 1024" by (intro power_increasing) simp_all
  have "\<bar>r - x\<bar> \<le> 1" using err by simp
  then have "r \<le> x + 1" and "x - 1 \<le> r" by linarith+
  moreover have "x + 1 < 2 ^ 24" and "- (2 ^ 24) < x - 1" using assms by simp_all
  ultimately have "r < 2 ^ 24" and "- (2 ^ 24) < r" by linarith+
  then have "\<not> 2 ^ 1024 \<le> r" and "\<not> r \<le> - (2 ^ 1024)" using big by linarith+
  then have "round_double x = Fin r"
    using False by (simp add: round_double_def Let_def e_def [symmetric] q_def [symmetric]
                        r_def [symmetric])
  then show ?thesis using err by blast
qed

text \<open>
  Below 2^23 SOL (8388608000000000 lamports) amounts that differ by a lamport or more
  are converted to different doubles, in the same order.
\<close>

lemma div_1e9_strict:
  assumes "0 \<le> a" and "a < b" and "b < 8388608000000000"
  shows "num_lt (div_1e9 (Fin (of_int a))) (div_1e9 (Fin (of_int b)))"
proof -
  let ?x = "of_int a / 1000000000 :: rat" and ?y = "of_int b / 1000000000 :: rat"
  have x0: "0 \<le> ?x" using assms(1) by simp
  have "(of_int b :: rat) < 8388608000000000"
    using assms(3) by (metis of_int_less_iff of_int_numeral)
  then have y23: "?y < 2 ^ 23" by simp
  have "(of_int a :: rat) + 1 \<le> of_int b"
    using assms(2) by (metis of_int_1 of_int_add of_int_le_iff zless_imp_add1_zle)
  then have gap: "?x + 1 / 1000000000 \<le> ?y" by (simp add: field_simps)
  then have x23: "?x < 2 ^ 23" using y23 by simp
  have y0: "0 \<le> ?y" using x0 gap by simp
  obtain r where r: "round_double ?x = Fin r" "\<bar>r - ?x\<bar> \<le> 1 / 2 ^ 31"
    using round_double_error [OF x0 x23] by blast
  obtain s where s: "round_double ?y = Fin s" "\<bar>s - ?y\<bar> \<le> 1 / 2 ^ 31"
    using round_double_error [OF y0 y23] by blast
  have c: "(1::rat) / 2 ^ 31 + 1 / 2 ^ 31 < 1 / 1000000000" by simp
  have "r \<le> ?x + 1 / 2 ^ 31" using r(2) by linarith
  moreover have "?y - 1 / 2 ^ 31 \<le> s" using s(2) by linarith
  ultimately have "r < s" using gap c by linarith
  then show ?thesis by (simp add: div_1e9.simps(1) r(1) s(1))
qed

text \<open>The doubles of the amounts and thresholds used in the concrete inputs.\<close>

lemma round_double_0_01:
  "round_double (1 / 100) = Fin (5764607523034235 / 576460752303423488)"
  by code_simp

lemma div_1e9_0_01_SOL:
  "div_1e9 (Fin 10000000) = Fin (5764607523034235 / 576460752303423488)"
  by code_simp

lemma div_1e9_half_SOL: "div_1e9 (Fin 500000000) = Fin (1 / 2)"
  by code_simp

lemma div_1e9_1_SOL: "div_1e9 (Fin 1000000000) = Fin 1"
  by code_simp

lemma div_1e9_1_000005_SOL:
  "div_1e9 (Fin 1000005000) = Fin (4503622145368633 / 4503599627370496)"
  by code_simp

lemma div_1e9_2_SOL: "div_1e9 (Fin 2000000000) = Fin 2"
  by code_simp

lemma div_1e9_large:
  "div_1e9 (Fin 8388608300000000) = Fin (2251799894215885 / 268435456)"
  by code_simp

lemma div_1e9_large_plus_one:
  "div_1e9 (Fin 8388608300000001) = Fin (2251799894215885 / 268435456)"
  by code_simp



section \<open>Facts about the event list of one call\<close>

lemma fetchedTransactions_append [simp]:
  "fetchedTransactions (xs @ ys) = fetchedTransactions xs @ fetchedTransactions ys"
  by (simp add: fetchedTransactions_def)

lemma notifications_append [simp]:
  "notifications (xs @ ys) = notifications xs @ notifications ys"
  by (simp add: notifications_def)

lemma cursorWrites_append [simp]:
  "cursorWrites (xs @ ys) = cursorWrites xs @ cursorWrites ys"
  by (simp add: cursorWrites_def)

lemma walletErrors_append [simp]:
  "walletErrors (xs @ ys) = walletErrors xs @ walletErrors ys"
  by (simp add: walletErrors_def)

lemma transactionErrors_append [simp]:
  "transactionErrors (xs @ ys) = transactionErrors xs @ transactionErrors ys"
  by (simp add: transactionErrors_def)

lemma fetchedTransactions_Nil [simp]: "fetchedTransactions [] = []"
  by (simp add: fetchedTransactions_def)

lemma fetchedTransactions_Cons [simp]:
  "fetchedTransactions (e # es) =
     (case e of GetParsedTransaction s \<Rightarrow> [s] | _ \<Rightarrow> []) @ fetchedTransactions es"
  by (simp add: fetchedTransactions_def)

lemma notifications_Nil [simp]: "notifications [] = []"
  by (simp add: notifications_def)

lemma notifications_Cons [simp]:
  "notifications (e # es) =
     (case e of SendMessage u n t \<Rightarrow> [(u, n, t)] | _ \<Rightarrow> []) @ notifications es"
  by (simp add: notifications_def)

lemma cursorWrites_Nil [simp]: "cursorWrites [] = []"
  by (simp add: cursorWrites_def)

lemma cursorWrites_Cons [simp]:
  "cursorWrites (e # es) =
     (case e of SetLastChecked w s \<Rightarrow> [(w, s)] | _ \<Rightarrow> []) @ cursorWrites es"
  by (simp add: cursorWrites_def)

lemma walletErrors_Nil [simp]: "walletErrors [] = []"
  by (simp add: walletErrors_def)

lemma walletErrors_Cons [simp]:
  "walletErrors (e # es) =
     (case e of LogWalletError n m \<Rightarrow> [m] | _ \<Rightarrow> []) @ walletErrors es"
  by (simp add: walletErrors_def)

lemma transactionErrors_Nil [simp]: "transactionErrors [] = []"
  by (simp add: transactionErrors_def)

lemma transactionErrors_Cons [simp]:
  "transactionErrors (e # es) =
     (case e of LogTransactionError m \<Rightarrow> [m] | _ \<Rightarrow> []) @ transactionErrors es"
  by (simp add: transactionErrors_def)

lemma sendTransactionNotification_fetched [simp]:
  "fetchedTransactions (sendTransactionNotification cl u w t) = []"
  by (simp add: sendTransactionNotification_def split: option.splits)

lemma sendTransactionNotification_cursorWrites [simp]:
  "cursorWrites (sendTransactionNotification cl u w t) = []"
  by (simp add: sendTransactionNotification_def split: option.splits)

lemma sendTransactionNotification_walletErrors [simp]:
  "walletErrors (sendTransactionNotification cl u w t) = []"
  by (simp add: sendTransactionNotification_def split: option.splits)

lemma processTransaction_fetched [simp]:
  "fetchedTransactions (processTransaction S cfg cl u w sig) = [signature sig]"
  by (simp add: processTransaction_def split: sum.splits option.splits)

lemma processTransaction_cursorWrites [simp]:
  "cursorWrites (processTransaction S cfg cl u w sig) = []"
  by (simp add: processTransaction_def split: sum.splits option.splits)

lemma processTransaction_walletErrors [simp]:
  "walletErrors (processTransaction S cfg cl u w sig) = []"
  by (simp add: processTransaction_def split: sum.splits option.splits)

lemma processTransaction_logs_fetch_error:
  "getParsedTransaction cl (signature sig) = Inl e \<Longrightarrow>
     transactionErrors (processTransaction S cfg cl u w sig) = [message e]"
  by (simp add: processTransaction_def)

lemma concat_fetched [simp]:
  "fetchedTransactions (concat (map (processTransaction S cfg cl u w) sigs)) = map signature sigs"
  by (induction sigs) simp_all

lemma concat_cursorWrites [simp]:
  "cursorWrites (concat (map (processTransaction S cfg cl u w) sigs)) = []"
  by (induction sigs) simp_all

lemma concat_walletErrors [simp]:
  "walletErrors (concat (map (processTransaction S cfg cl u w) sigs)) = []"
  by (induction sigs) simp_all

lemma concat_notifications:
  "notifications (concat (map f sigs)) = concat (map (\<lambda>s. notifications (f s)) sigs)"
  by (induction sigs) simp_all

lemma transactionErrors_logged:
  assumes "s \<in> set sigs" and "getParsedTransaction cl (signature s) = Inl e"
  shows "message e \<in> set (transactionErrors (concat (map (processTransaction S cfg cl u w) sigs)))"
  using assms
  by (induction sigs) (auto simp: processTransaction_logs_fetch_error)

lemma catchWalletError_fetched [simp]: "fetchedTransactions (catchWalletError w e) = []"
  by (simp add: catchWalletError_def)

lemma catchWalletError_cursorWrites [simp]: "cursorWrites (catchWalletError w e) = []"
  by (simp add: catchWalletError_def)

lemma catchWalletError_notifications [simp]: "notifications (catchWalletError w e) = []"
  by (simp add: catchWalletError_def)

lemma catchWalletError_walletErrors [simp]: "walletErrors (catchWalletError w e) = [message e]"
  by (simp add: catchWalletError_def)

text \<open>The collecting loop keeps the signatures in front of the stored one.\<close>

lemma collectNewSignatures_takeWhile:
  "collectNewSignatures c sigs = takeWhile (\<lambda>s. signature s \<noteq> c) sigs"
  by (induction sigs) simp_all

lemma collectNewSignatures_stop:
  "c \<notin> signature ` set news \<Longrightarrow> signature cur = c \<Longrightarrow>
     collectNewSignatures c (news @ cur # older) = news"
  by (induction news) auto

lemma collectNewSignatures_gap:
  "c \<notin> signature ` set window \<Longrightarrow> collectNewSignatures c window = window"
  by (induction window) auto

text \<open>The call on the path that processes transactions.\<close>

lemma checkWalletTransactions_processing:
  assumes "newPublicKey cl (address wallet) = None"
      and "getSignaturesForAddress cl (address wallet) 1 = Inr (sig0 # rest)"
      and "store walletId = Some c" and "c \<noteq> []" and "signature sig0 \<noteq> c"
      and "getSignaturesForAddress cl (address wallet) 5 = Inr window"
  shows "checkWalletTransactions S cfg cl store userId walletId wallet =
           (store(walletId \<mapsto> signature sig0),
            [GetSignaturesForAddress (address wallet) 1, GetSignaturesForAddress (address wallet) 5]
             @ concat (map (processTransaction S cfg cl userId wallet)
                         (rev (collectNewSignatures c window)))
             @ [SetLastChecked walletId (signature sig0)])"
  using assms by (simp add: checkWalletTransactions_def Let_def)




lemma checkWalletTransactions_others:
  "w \<noteq> walletId \<Longrightarrow>
     fst (checkWalletTransactions S cfg cl store userId walletId wallet) w = store w"
  by (auto simp: checkWalletTransactions_def Let_def
           split: option.splits sum.splits list.splits if_splits)

section \<open>Facts about the ledger and the timer\<close>






lemma inFlight_distinct: "distinct (inFlight duration t)"
  by (simp add: inFlight_def)

lemma inFlight_within_interval:
  assumes "\<forall>k. duration k \<le> 15000"
  shows "length (inFlight duration t) \<le> 1"
proof -
  have "set (inFlight duration t) \<subseteq> {t div 15000 - 1}"
  proof
    fix k assume "k \<in> set (inFlight duration t)"
    then have a: "15000 * (k + 1) \<le> t" and b: "t < 15000 * (k + 1) + duration k"
      by (auto simp: inFlight_def tickTime_def)
    have "duration k \<le> 15000" using assms by simp
    with b have c: "t < 15000 * (k + 2)" by simp
    from a c have "t div 15000 = k + 1" by (intro div_nat_eqI) simp_all
    then show "k \<in> {t div 15000 - 1}" by simp
  qed
  then have "card (set (inFlight duration t)) \<le> card {t div 15000 - 1}"
    by (intro card_mono) simp_all
  then show ?thesis
    by (simp add: distinct_card [OF inFlight_distinct])
qed

lemma inFlight_overlap:
  assumes "15000 < duration k" and "0 < duration (Suc k)"
  shows "k \<in> set (inFlight duration (tickTime (Suc k)))
       \<and> Suc k \<in> set (inFlight duration (tickTime (Suc k)))"
  using assms by (simp add: inFlight_def tickTime_def)

lemma two_members:
  assumes "distinct xs" and "a \<in> set xs" and "b \<in> set xs" and "a \<noteq> b"
  shows "2 \<le> length xs"
proof -
  have "{a, b} \<subseteq> set xs" using assms by simp
  then have "card {a, b} \<le> card (set xs)" by (intro card_mono) simp_all
  then show ?thesis using assms by (simp add: distinct_card)
qed

lemma interBatchDelay_49: "interBatchDelay 49 0 = 16000"
  by (simp add: interBatchDelay.simps BATCH_SIZE_def)

lemma interBatchDelay_6: "interBatchDelay 6 0 = 1000"
  by (simp add: interBatchDelay.simps BATCH_SIZE_def)

section \<open>The filter\<close>

text \<open>
  Claim C3 (filter boundaries), as amended. A transfer whose amount converts to exactly
  \<open>minAmount\<close> is notified when the other three checks pass, and so is a transfer whose
  amount converts to exactly \<open>maxAmount\<close>. For amounts and thresholds below 2^23 SOL
  (8388608000000000 lamports): a transfer one lamport above a configured \<open>maxAmount\<close>
  is suppressed, and a transfer below the process-wide floor is suppressed whatever the
  watch record holds. A threshold of \<open>L\<close> lamports is the double that \<open>L / 1e9\<close>
  rounds to; a \<open>maxAmount\<close> is configured when it is truthy: the program reads
  \<^verbatim>\<open>null\<close> and 0 as "no maximum" (line 204 prints them as infinity).
\<close>

theorem shouldNotify_boundaries:
  "(toNumber S (minAmount w) = div_1e9 (amount t)
      \<and> \<not> num_lt (div_1e9 (amount t)) (toNumber S (MINIMUM_SOL_THRESHOLD cfg))
      \<and> \<not> (truthy (maxAmount w) \<and> num_gt (div_1e9 (amount t)) (toNumber S (maxAmount w)))
      \<and> (direction w = ''both'' \<or> direction w = transfer_direction t)
      \<longrightarrow> shouldNotify S cfg t w)
 \<and> (toNumber S (maxAmount w) = div_1e9 (amount t)
      \<and> \<not> num_lt (div_1e9 (amount t)) (toNumber S (MINIMUM_SOL_THRESHOLD cfg))
      \<and> \<not> (truthy (minAmount w) \<and> num_lt (div_1e9 (amount t)) (toNumber S (minAmount w)))
      \<and> (direction w = ''both'' \<or> direction w = transfer_direction t)
      \<longrightarrow> shouldNotify S cfg t w)
 \<and> (truthy (maxAmount w) \<and> toNumber S (maxAmount w) = div_1e9 (Fin (of_int L))
      \<and> amount t = Fin (of_int (L + 1)) \<and> 0 \<le> L \<and> L + 1 < 8388608000000000
      \<longrightarrow> \<not> shouldNotify S cfg t w)
 \<and> (toNumber S (MINIMUM_SOL_THRESHOLD cfg) = div_1e9 (Fin (of_int F))
      \<and> amount t = Fin (of_int a) \<and> 0 \<le> a \<and> a < F \<and> F < 8388608000000000
      \<longrightarrow> \<not> shouldNotify S cfg t w)"
proof (intro conjI impI)
  assume "toNumber S (minAmount w) = div_1e9 (amount t)
      \<and> \<not> num_lt (div_1e9 (amount t)) (toNumber S (MINIMUM_SOL_THRESHOLD cfg))
      \<and> \<not> (truthy (maxAmount w) \<and> num_gt (div_1e9 (amount t)) (toNumber S (maxAmount w)))
      \<and> (direction w = ''both'' \<or> direction w = transfer_direction t)"
  then show "shouldNotify S cfg t w"
    by (auto simp: shouldNotify_def Let_def num_lt_irrefl)
next
  assume "toNumber S (maxAmount w) = div_1e9 (amount t)
      \<and> \<not> num_lt (div_1e9 (amount t)) (toNumber S (MINIMUM_SOL_THRESHOLD cfg))
      \<and> \<not> (truthy (minAmount w) \<and> num_lt (div_1e9 (amount t)) (toNumber S (minAmount w)))
      \<and> (direction w = ''both'' \<or> direction w = transfer_direction t)"
  then show "shouldNotify S cfg t w"
    by (auto simp: shouldNotify_def Let_def num_gt_def num_lt_irrefl)
next
  assume h: "truthy (maxAmount w) \<and> toNumber S (maxAmount w) = div_1e9 (Fin (of_int L))
      \<and> amount t = Fin (of_int (L + 1)) \<and> 0 \<le> L \<and> L + 1 < 8388608000000000"
  then have "num_lt (div_1e9 (Fin (of_int L))) (div_1e9 (Fin (of_int (L + 1))))"
    by (intro div_1e9_strict) simp_all
  with h show "\<not> shouldNotify S cfg t w"
    by (simp add: shouldNotify_def Let_def num_gt_def)
next
  assume h: "toNumber S (MINIMUM_SOL_THRESHOLD cfg) = div_1e9 (Fin (of_int F))
      \<and> amount t = Fin (of_int a) \<and> 0 \<le> a \<and> a < F \<and> F < 8388608000000000"
  then have "num_lt (div_1e9 (Fin (of_int a))) (div_1e9 (Fin (of_int F)))"
    by (intro div_1e9_strict) simp_all
  with h show "\<not> shouldNotify S cfg t w"
    by (simp add: shouldNotify_def Let_def)
qed

text \<open>
  At the watch that notifies between 0.5 and 2 SOL: 0.5 SOL and 2 SOL pass, 2 SOL and one
  lamport does not, and 0.009999999 SOL is below the floor of 0.01 SOL although the
  watch asks for 1/1024 SOL only.
\<close>

theorem shouldNotify_boundaries_witness:
  "shouldNotify demoStringToNumber demoConfig (demoTransfer 500000000) demoWallet
 \<and> shouldNotify demoStringToNumber demoConfig (demoTransfer 2000000000) demoWallet
 \<and> \<not> shouldNotify demoStringToNumber demoConfig (demoTransfer 2000000001) demoWallet
 \<and> \<not> shouldNotify demoStringToNumber demoConfig (demoTransfer 9999999)
        (demoWallet\<lparr>minAmount := JNumber (Fin (1 / 1024))\<rparr>)"
  using shouldNotify_boundaries [where S = demoStringToNumber and cfg = demoConfig
          and w = demoWallet and t = "demoTransfer 500000000"]
        shouldNotify_boundaries [where S = demoStringToNumber and cfg = demoConfig
          and w = demoWallet and t = "demoTransfer 2000000000"]
        shouldNotify_boundaries [where S = demoStringToNumber and cfg = demoConfig
          and w = demoWallet and t = "demoTransfer 2000000001" and L = 2000000000]
        shouldNotify_boundaries [where S = demoStringToNumber and cfg = demoConfig
          and w = "demoWallet\<lparr>minAmount := JNumber (Fin (1 / 1024))\<rparr>"
          and t = "demoTransfer 9999999" and F = 10000000 and a = 9999999]
  by (simp add: demoStringToNumber_def demoConfig_def demoWallet_def demoTransfer_def num_gt_def
        round_double_0_01 div_1e9_0_01_SOL div_1e9_half_SOL div_1e9_2_SOL)

text \<open>
  The claim as it is written fails from 2^23 SOL on: 8388608300000001 lamports are one
  lamport above a maximum of 8388608.3 SOL, both convert to the same double, and the
  transfer is notified.
\<close>

theorem shouldNotify_above_large_max:
  "maxAmount largeWallet = JNumber (Fin (2251799894215885 / 268435456))
   \<and> div_1e9 (Fin 8388608300000000) = Fin (2251799894215885 / 268435456)
   \<and> div_1e9 (amount (demoTransfer 8388608300000001)) = Fin (2251799894215885 / 268435456)
   \<and> shouldNotify demoStringToNumber demoConfig (demoTransfer 8388608300000001) largeWallet"
  by (simp add: shouldNotify_def Let_def demoStringToNumber_def demoConfig_def demoWallet_def
        largeWallet_def demoTransfer_def num_gt_def round_double_0_01 div_1e9_large
        div_1e9_large_plus_one)

text \<open>
  When the floor variable is not set, its comparison is a comparison with NaN and
  suppresses nothing: the decision is then left to the other three checks.
\<close>

lemma shouldNotify_floor_unset:
  "MINIMUM_SOL_THRESHOLD cfg = JUndefined \<Longrightarrow>
     shouldNotify S cfg t w =
       (\<not> (truthy (minAmount w) \<and> num_lt (div_1e9 (amount t)) (toNumber S (minAmount w)))
        \<and> \<not> (truthy (maxAmount w) \<and> num_gt (div_1e9 (amount t)) (toNumber S (maxAmount w)))
        \<and> (direction w = ''both'' \<or> direction w = transfer_direction t))"
  by (cases "div_1e9 (amount t)") (auto simp: shouldNotify_def Let_def)

section \<open>The analyzer\<close>



text \<open>
  Claim C10 (the dust cutoff is not configurable). The analyzer returns the same result
  under any two values of \<open>DUST_THRESHOLD\<close>, and for a transaction with metadata that
  contains the watched address it returns "irrelevant" exactly when the absolute
  balance change is below 1000.
\<close>

theorem analyzer_ignores_DUST_THRESHOLD:
  "analyzeSolTransaction (cfg\<lparr>DUST_THRESHOLD := d\<rparr>) tx a
     = analyzeSolTransaction (cfg\<lparr>DUST_THRESHOLD := d'\<rparr>) tx a
   \<and> (meta tx = Some m \<and> findWalletIndex (accountKeys tx) a 0 = Some w \<longrightarrow>
        (analyzeSolTransaction (cfg\<lparr>DUST_THRESHOLD := d\<rparr>) tx a = Inr None)
          = num_lt (num_abs (balance_change m w)) (Fin 1000))"
  by (auto simp: analyzeSolTransaction_def Let_def)

text \<open>A change of 500 lamports is dropped although the configured threshold is 100.\<close>

theorem analyzer_ignores_DUST_THRESHOLD_witness:
  "analyzeSolTransaction (demoConfig\<lparr>DUST_THRESHOLD := JString ''100''\<rparr>) dustTx ''WATCHED''
     = analyzeSolTransaction (demoConfig\<lparr>DUST_THRESHOLD := JString ''1000000''\<rparr>) dustTx ''WATCHED''
   \<and> analyzeSolTransaction (demoConfig\<lparr>DUST_THRESHOLD := JString ''100''\<rparr>) dustTx ''WATCHED''
       = Inr None
   \<and> num_lt (num_abs (balance_change (the (meta dustTx)) 0)) (Fin 1000)"
  using analyzer_ignores_DUST_THRESHOLD [where cfg = demoConfig and d = "JString ''100''"
          and d' = "JString ''1000000''" and tx = dustTx and a = "''WATCHED''"
          and m = "the (meta dustTx)" and w = 0]
  by (simp add: analyzeSolTransaction_def dustTx_def findWalletIndex.simps balance_change_def
        balance_at_def num_sub_def Let_def)

section \<open>The differ\<close>

text \<open>
  Claim C5 (cold start). When the address is well formed, the request for the latest
  signature answers with at least one signature and no cursor is stored for the watch,
  the call stores the latest signature as the cursor, sends no notification and fetches
  no transaction.
\<close>

theorem cold_start:
  assumes "newPublicKey cl (address wallet) = None"
      and "getSignaturesForAddress cl (address wallet) 1 = Inr (newest # rest)"
      and "store walletId = None"
  shows "fst (checkWalletTransactions S cfg cl store userId walletId wallet) walletId
           = Some (signature newest)
       \<and> notifications (snd (checkWalletTransactions S cfg cl store userId walletId wallet)) = []
       \<and> fetchedTransactions (snd (checkWalletTransactions S cfg cl store userId walletId wallet)) = []"
  using assms by (simp add: checkWalletTransactions_def Let_def)

theorem cold_start_witness:
  "noCursors ''w1'' = None
   \<and> fst (checkWalletTransactions demoStringToNumber demoConfig (ledgerClient demoLedger 5)
            noCursors ''u1'' ''w1'' demoWallet) ''w1'' = Some ''S3''
   \<and> notifications (snd (checkWalletTransactions demoStringToNumber demoConfig
        (ledgerClient demoLedger 5) noCursors ''u1'' ''w1'' demoWallet)) = []"
  using cold_start [where cl = "ledgerClient demoLedger 5" and wallet = demoWallet
          and newest = "demoSig ''S3''" and rest = "[]" and store = noCursors
          and walletId = "''w1''" and S = demoStringToNumber and cfg = demoConfig
          and userId = "''u1''"]
  by (simp add: checkWalletTransactions_def processTransaction_def
        sendTransactionNotification_def analyzeSolTransaction_def shouldNotify_def
        catchWalletError_def findWalletIndex.simps findCounterparty.simps balance_change_def
        balance_at_def num_sub_def num_gt_def Let_def ledgerClient_def demoLedger_def
        demoSig_def demoTransactions_def demoWallet_def demoConfig_def
        demoStringToNumber_def incomingTx_def outgoingTx_def
        round_double_0_01 div_1e9_1_SOL div_1e9_1_000005_SOL
        noCursors_def)

text \<open>
  Claim C8 (nothing new). When the latest signature fetched equals the stored cursor, the
  call fetches no transaction and sends no notification; the cursor map is unchanged.
\<close>

theorem unchanged_latest_is_noop:
  assumes "newPublicKey cl (address wallet) = None"
      and "getSignaturesForAddress cl (address wallet) 1 = Inr (newest # rest)"
      and "store walletId = Some (signature newest)"
  shows "fetchedTransactions (snd (checkWalletTransactions S cfg cl store userId walletId wallet)) = []
       \<and> notifications (snd (checkWalletTransactions S cfg cl store userId walletId wallet)) = []
       \<and> fst (checkWalletTransactions S cfg cl store userId walletId wallet) = store"
  using assms by (auto simp: checkWalletTransactions_def Let_def map_upd_triv)

theorem unchanged_latest_is_noop_witness:
  "cursorAt ''S3'' ''w1'' = Some ''S3''
   \<and> snd (checkWalletTransactions demoStringToNumber demoConfig (ledgerClient demoLedger 5)
            (cursorAt ''S3'') ''u1'' ''w1'' demoWallet)
       = [GetSignaturesForAddress ''WATCHED'' 1]"
  using unchanged_latest_is_noop [where cl = "ledgerClient demoLedger 5" and wallet = demoWallet
          and newest = "demoSig ''S3''" and rest = "[]" and store = "cursorAt ''S3''"
          and walletId = "''w1''" and S = demoStringToNumber and cfg = demoConfig
          and userId = "''u1''"]
  by (simp add: checkWalletTransactions_def processTransaction_def
        sendTransactionNotification_def analyzeSolTransaction_def shouldNotify_def
        catchWalletError_def findWalletIndex.simps findCounterparty.simps balance_change_def
        balance_at_def num_sub_def num_gt_def Let_def ledgerClient_def demoLedger_def
        demoSig_def demoTransactions_def demoWallet_def demoConfig_def
        demoStringToNumber_def incomingTx_def outgoingTx_def
        round_double_0_01 div_1e9_1_SOL div_1e9_1_000005_SOL
        cursorAt_def)

text \<open>
  Claim C4 (chronological delivery). When the window of recent signatures, newest first,
  is \<open>news\<close> followed by the stored cursor, the call processes \<open>news\<close> in reverse, that
  is oldest first: its transaction fetches and its notifications are those of the
  signatures of \<open>rev news\<close>, one signature after the other. For S3, S2, S1 in front of
  the cursor this is the order S1, S2, S3.
\<close>

theorem chronological_delivery:
  assumes "newPublicKey cl (address wallet) = None"
      and "getSignaturesForAddress cl (address wallet) 1 = Inr (newest # rest)"
      and "store walletId = Some c" and "c \<noteq> []" and "signature newest \<noteq> c"
      and "getSignaturesForAddress cl (address wallet) 5 = Inr (news @ cur # older)"
      and "signature cur = c" and "c \<notin> signature ` set news"
  shows "snd (checkWalletTransactions S cfg cl store userId walletId wallet)
           = [GetSignaturesForAddress (address wallet) 1, GetSignaturesForAddress (address wallet) 5]
             @ concat (map (processTransaction S cfg cl userId wallet) (rev news))
             @ [SetLastChecked walletId (signature newest)]
       \<and> fetchedTransactions (snd (checkWalletTransactions S cfg cl store userId walletId wallet))
           = rev (map signature news)
       \<and> notifications (snd (checkWalletTransactions S cfg cl store userId walletId wallet))
           = concat (map (\<lambda>s. notifications (processTransaction S cfg cl userId wallet s)) (rev news))"
  using assms
  by (simp add: checkWalletTransactions_def Let_def collectNewSignatures_stop rev_map
        concat_notifications)

text \<open>
  With the cursor at S0 and S1, S2, S3 new: the three are fetched in this order and the
  two that qualify are notified in this order.
\<close>

theorem chronological_delivery_witness:
  "fetchedTransactions (snd (checkWalletTransactions demoStringToNumber demoConfig
      (ledgerClient demoLedger 5) (cursorAt ''S0'') ''u1'' ''w1'' demoWallet))
     = [''S1'', ''S2'', ''S3'']
   \<and> notifications (snd (checkWalletTransactions demoStringToNumber demoConfig
        (ledgerClient demoLedger 5) (cursorAt ''S0'') ''u1'' ''w1'' demoWallet))
     = [(''u1'', ''main'', incomingTransfer), (''u1'', ''main'', outgoingTransfer)]"
  using chronological_delivery [where cl = "ledgerClient demoLedger 5" and wallet = demoWallet
          and newest = "demoSig ''S3''" and rest = "[]" and store = "cursorAt ''S0''"
          and walletId = "''w1''" and c = "''S0''"
          and news = "[demoSig ''S3'', demoSig ''S2'', demoSig ''S1'']"
          and cur = "demoSig ''S0''" and older = "[demoSig ''Sx'']"
          and S = demoStringToNumber and cfg = demoConfig and userId = "''u1''"]
  by (simp add: checkWalletTransactions_def processTransaction_def
        sendTransactionNotification_def analyzeSolTransaction_def shouldNotify_def
        catchWalletError_def findWalletIndex.simps findCounterparty.simps balance_change_def
        balance_at_def num_sub_def num_gt_def Let_def ledgerClient_def demoLedger_def
        demoSig_def demoTransactions_def demoWallet_def demoConfig_def
        demoStringToNumber_def incomingTx_def outgoingTx_def
        round_double_0_01 div_1e9_1_SOL div_1e9_1_000005_SOL
        cursorAt_def incomingTransfer_def outgoingTransfer_def)

text \<open>
  Claim C6 (gap). When the stored cursor is not among the signatures of the window that
  the request with limit 5 returns, the call logs no error for the watch, fetches exactly
  the transactions of the window (oldest first, nothing older), and stores the latest
  signature as the cursor.
\<close>

theorem gap_handling:
  assumes "newPublicKey cl (address wallet) = None"
      and "getSignaturesForAddress cl (address wallet) 1 = Inr (newest # rest)"
      and "store walletId = Some c" and "c \<noteq> []" and "signature newest \<noteq> c"
      and "getSignaturesForAddress cl (address wallet) 5 = Inr window"
      and "c \<notin> signature ` set window"
  shows "walletErrors (snd (checkWalletTransactions S cfg cl store userId walletId wallet)) = []
       \<and> fetchedTransactions (snd (checkWalletTransactions S cfg cl store userId walletId wallet))
           = rev (map signature window)
       \<and> fst (checkWalletTransactions S cfg cl store userId walletId wallet) walletId
           = Some (signature newest)"
  using assms
  by (simp add: checkWalletTransactions_def Let_def collectNewSignatures_gap rev_map)

theorem gap_handling_witness:
  "fetchedTransactions (snd (checkWalletTransactions demoStringToNumber demoConfig
      (ledgerClient demoLedger 5) (cursorAt ''OLD'') ''u1'' ''w1'' demoWallet))
     = [''Sx'', ''S0'', ''S1'', ''S2'', ''S3'']
   \<and> walletErrors (snd (checkWalletTransactions demoStringToNumber demoConfig
        (ledgerClient demoLedger 5) (cursorAt ''OLD'') ''u1'' ''w1'' demoWallet)) = []
   \<and> fst (checkWalletTransactions demoStringToNumber demoConfig
        (ledgerClient demoLedger 5) (cursorAt ''OLD'') ''u1'' ''w1'' demoWallet) ''w1''
     = Some ''S3''"
  using gap_handling [where cl = "ledgerClient demoLedger 5" and wallet = demoWallet
          and newest = "demoSig ''S3''" and rest = "[]" and store = "cursorAt ''OLD''"
          and walletId = "''w1''" and c = "''OLD''"
          and window = "[demoSig ''S3'', demoSig ''S2'', demoSig ''S1'', demoSig ''S0'',
                         demoSig ''Sx'']"
          and S = demoStringToNumber and cfg = demoConfig and userId = "''u1''"]
  by (simp add: checkWalletTransactions_def processTransaction_def
        sendTransactionNotification_def analyzeSolTransaction_def shouldNotify_def
        catchWalletError_def findWalletIndex.simps findCounterparty.simps balance_change_def
        balance_at_def num_sub_def num_gt_def Let_def ledgerClient_def demoLedger_def
        demoSig_def demoTransactions_def demoWallet_def demoConfig_def
        demoStringToNumber_def incomingTx_def outgoingTx_def
        round_double_0_01 div_1e9_1_SOL div_1e9_1_000005_SOL
        cursorAt_def)

text \<open>
  Claim C1 (errors during a fetch), as amended. When the fetch of an individual
  transaction raises, the error is logged and the cursor is still advanced, by the one
  write at the end of the call, to the latest signature fetched. When one of the two
  requests for signatures raises, the error is logged for the watch, nothing is written
  and the cursor map is left as it was.
\<close>

theorem fetch_errors_and_cursor:
  "(newPublicKey cl (address wallet) = None
     \<and> getSignaturesForAddress cl (address wallet) 1 = Inr (newest # rest)
     \<and> store walletId = Some c \<and> c \<noteq> [] \<and> signature newest \<noteq> c
     \<and> getSignaturesForAddress cl (address wallet) 5 = Inr window
     \<longrightarrow> fst (checkWalletTransactions S cfg cl store userId walletId wallet) walletId
            = Some (signature newest)
         \<and> cursorWrites (snd (checkWalletTransactions S cfg cl store userId walletId wallet))
            = [(walletId, signature newest)]
         \<and> (\<forall>s \<in> set (collectNewSignatures c window). \<forall>e.
               getParsedTransaction cl (signature s) = Inl e \<longrightarrow>
               message e \<in> set (transactionErrors
                 (snd (checkWalletTransactions S cfg cl store userId walletId wallet)))))
 \<and> (newPublicKey cl (address wallet) = None
     \<and> (getSignaturesForAddress cl (address wallet) 1 = Inl err
        \<or> getSignaturesForAddress cl (address wallet) 1 = Inr (newest # rest)
          \<and> store walletId = Some c \<and> c \<noteq> [] \<and> signature newest \<noteq> c
          \<and> getSignaturesForAddress cl (address wallet) 5 = Inl err)
     \<longrightarrow> fst (checkWalletTransactions S cfg cl store userId walletId wallet) = store
         \<and> cursorWrites (snd (checkWalletTransactions S cfg cl store userId walletId wallet)) = []
         \<and> walletErrors (snd (checkWalletTransactions S cfg cl store userId walletId wallet))
            = [message err])"
proof (intro conjI impI)
  assume h: "newPublicKey cl (address wallet) = None
     \<and> getSignaturesForAddress cl (address wallet) 1 = Inr (newest # rest)
     \<and> store walletId = Some c \<and> c \<noteq> [] \<and> signature newest \<noteq> c
     \<and> getSignaturesForAddress cl (address wallet) 5 = Inr window"
  then have eq: "checkWalletTransactions S cfg cl store userId walletId wallet =
           (store(walletId \<mapsto> signature newest),
            [GetSignaturesForAddress (address wallet) 1, GetSignaturesForAddress (address wallet) 5]
             @ concat (map (processTransaction S cfg cl userId wallet)
                         (rev (collectNewSignatures c window)))
             @ [SetLastChecked walletId (signature newest)])"
    by (intro checkWalletTransactions_processing) simp_all
  show "fst (checkWalletTransactions S cfg cl store userId walletId wallet) walletId
            = Some (signature newest)"
    by (simp add: eq)
  show "cursorWrites (snd (checkWalletTransactions S cfg cl store userId walletId wallet))
            = [(walletId, signature newest)]"
    by (simp add: eq)
  show "\<forall>s \<in> set (collectNewSignatures c window). \<forall>e.
               getParsedTransaction cl (signature s) = Inl e \<longrightarrow>
               message e \<in> set (transactionErrors
                 (snd (checkWalletTransactions S cfg cl store userId walletId wallet)))"
    using transactionErrors_logged [of _ "rev (collectNewSignatures c window)" cl _ S cfg userId wallet]
    by (auto simp: eq)
next
  assume h: "newPublicKey cl (address wallet) = None
     \<and> (getSignaturesForAddress cl (address wallet) 1 = Inl err
        \<or> getSignaturesForAddress cl (address wallet) 1 = Inr (newest # rest)
          \<and> store walletId = Some c \<and> c \<noteq> [] \<and> signature newest \<noteq> c
          \<and> getSignaturesForAddress cl (address wallet) 5 = Inl err)"
  then show "fst (checkWalletTransactions S cfg cl store userId walletId wallet) = store"
    by (auto simp: checkWalletTransactions_def Let_def)
  from h show "cursorWrites (snd (checkWalletTransactions S cfg cl store userId walletId wallet)) = []"
    by (auto simp: checkWalletTransactions_def Let_def)
  from h show "walletErrors (snd (checkWalletTransactions S cfg cl store userId walletId wallet))
            = [message err]"
    by (auto simp: checkWalletTransactions_def Let_def)
qed

text \<open>
  The fetch of S2 fails: the failure is logged and the cursor moves from S0 to S3. The
  second request for signatures is rejected: the rejection is logged and nothing is
  written.
\<close>

theorem fetch_errors_and_cursor_witness:
  "getParsedTransaction (ledgerClient demoLedger 5) ''S2'' = Inl (Error ''fetch failed'')
   \<and> transactionErrors (snd (checkWalletTransactions demoStringToNumber demoConfig
        (ledgerClient demoLedger 5) (cursorAt ''S0'') ''u1'' ''w1'' demoWallet))
       = [''fetch failed'']
   \<and> cursorWrites (snd (checkWalletTransactions demoStringToNumber demoConfig
        (ledgerClient demoLedger 5) (cursorAt ''S0'') ''u1'' ''w1'' demoWallet))
       = [(''w1'', ''S3'')]
   \<and> cursorWrites (snd (checkWalletTransactions demoStringToNumber demoConfig
        rateLimitedClient (cursorAt ''S0'') ''u1'' ''w1'' demoWallet)) = []"
  using fetch_errors_and_cursor [where cl = "ledgerClient demoLedger 5" and wallet = demoWallet
          and newest = "demoSig ''S3''" and rest = "[]" and store = "cursorAt ''S0''"
          and walletId = "''w1''" and c = "''S0''"
          and window = "[demoSig ''S3'', demoSig ''S2'', demoSig ''S1'', demoSig ''S0'',
                         demoSig ''Sx'']"
          and S = demoStringToNumber and cfg = demoConfig and userId = "''u1''"]
        fetch_errors_and_cursor [where cl = rateLimitedClient and wallet = demoWallet
          and newest = "demoSig ''S3''" and rest = "[]" and store = "cursorAt ''S0''"
          and walletId = "''w1''" and c = "''S0''" and err = "Error ''429 Too Many Requests''"
          and S = demoStringToNumber and cfg = demoConfig and userId = "''u1''"]
  by (simp add: checkWalletTransactions_def processTransaction_def
        sendTransactionNotification_def analyzeSolTransaction_def shouldNotify_def
        catchWalletError_def findWalletIndex.simps findCounterparty.simps balance_change_def
        balance_at_def num_sub_def num_gt_def Let_def ledgerClient_def demoLedger_def
        demoSig_def demoTransactions_def demoWallet_def demoConfig_def
        demoStringToNumber_def incomingTx_def outgoingTx_def
        round_double_0_01 div_1e9_1_SOL div_1e9_1_000005_SOL
        cursorAt_def rateLimitedClient_def)

text \<open>
  The claim as it is written fails when the request that raises is the one for the
  window of signatures: the latest signature S3 is known, the error is logged, and the
  cursor stays at S0.
\<close>

theorem signature_fetch_error_keeps_cursor:
  "getSignaturesForAddress rateLimitedClient (address demoWallet) 1 = Inr [demoSig ''S3'']
   \<and> getSignaturesForAddress rateLimitedClient (address demoWallet) 5
       = Inl (Error ''429 Too Many Requests'')
   \<and> snd (checkWalletTransactions demoStringToNumber demoConfig rateLimitedClient
        (cursorAt ''S0'') ''u1'' ''w1'' demoWallet)
       = [GetSignaturesForAddress ''WATCHED'' 1, GetSignaturesForAddress ''WATCHED'' 5,
          LogWalletError ''main'' ''429 Too Many Requests'', LogRateLimited ''main'']
   \<and> fst (checkWalletTransactions demoStringToNumber demoConfig rateLimitedClient
        (cursorAt ''S0'') ''u1'' ''w1'' demoWallet) ''w1'' = Some ''S0''
   \<and> fst (checkWalletTransactions demoStringToNumber demoConfig rateLimitedClient
        (cursorAt ''S0'') ''u1'' ''w1'' demoWallet) ''w1'' \<noteq> Some ''S3''"
  by (simp add: checkWalletTransactions_def processTransaction_def
        sendTransactionNotification_def analyzeSolTransaction_def shouldNotify_def
        catchWalletError_def findWalletIndex.simps findCounterparty.simps balance_change_def
        balance_at_def num_sub_def num_gt_def Let_def ledgerClient_def demoLedger_def
        demoSig_def demoTransactions_def demoWallet_def demoConfig_def
        demoStringToNumber_def incomingTx_def outgoingTx_def
        round_double_0_01 div_1e9_1_SOL div_1e9_1_000005_SOL
        cursorAt_def rateLimitedClient_def)




section \<open>The scheduler\<close>

text \<open>
  Claim C2 (overlapping passes), as amended. The timer starts a pass every 15000 ms
  whether or not the previous pass has finished. At most one pass is in flight as long
  as every pass finishes within the interval; a pass that takes longer than the
  interval is still in flight when the next pass starts, so that two are in flight.
\<close>

theorem inFlight_passes:
  "((\<forall>k. duration k \<le> 15000) \<longrightarrow> length (inFlight duration t) \<le> 1)
 \<and> (15000 < duration k \<and> 0 < duration (Suc k)
     \<longrightarrow> k \<in> set (inFlight duration (tickTime (Suc k)))
        \<and> Suc k \<in> set (inFlight duration (tickTime (Suc k)))
        \<and> 2 \<le> length (inFlight duration (tickTime (Suc k))))"
  using inFlight_within_interval [of duration t] inFlight_overlap [of duration k]
        two_members [OF inFlight_distinct, of k duration "tickTime (Suc k)" "Suc k"]
  by auto

text \<open>
  Passes over 6 wallets pause for 1000 ms and do not overlap; passes over 49 wallets
  pause for 16000 ms, and the first is still in flight when the second starts.
\<close>

theorem inFlight_passes_witness:
  "quickPass 0 = 1000 \<and> length (inFlight quickPass 30500) \<le> 1
   \<and> 15000 < slowPass 0 \<and> 2 \<le> length (inFlight slowPass (tickTime (Suc 0)))"
  using inFlight_passes [where duration = quickPass and t = 30500]
        inFlight_passes [where duration = slowPass and k = 0]
  by (simp add: quickPass_def slowPass_def interBatchDelay_6 interBatchDelay_49)

text \<open>
  The claim as it is written fails for passes over 49 active wallets: at 30000 ms the
  passes started at 15000 ms and at 30000 ms are both in flight.
\<close>

theorem two_passes_in_flight:
  "interBatchDelay 49 0 = 16000
   \<and> inFlight slowPass 30000 = [0, 1]
   \<and> \<not> length (inFlight slowPass 30000) \<le> 1"
  by (simp add: inFlight_def slowPass_def interBatchDelay_49 tickTime_def upt_rec)

end
